theory Spec2Isabelle
  imports Complex_Main
begin

section \<open>JavaScript values used by the routes\<close>

text \<open>
  A JavaScript object used as a dictionary is kept as the list of its properties in
  creation order. Assigning to an existing property replaces its value in place;
  assigning to a new one appends it. (JavaScript enumerates integer-like property names
  before the others; no statement below depends on the enumeration order of such names.)
\<close>

fun obj_set :: "'k \<Rightarrow> 'v \<Rightarrow> ('k \<times> 'v) list \<Rightarrow> ('k \<times> 'v) list" where
  "obj_set k v [] = [(k, v)]"
| "obj_set k v (p # ps) = (if fst p = k then (k, v) # ps else p # obj_set k v ps)"

definition obj_get :: "('k \<times> 'v) list \<Rightarrow> 'k \<Rightarrow> 'v option" where
  "obj_get ob k = map_of ob k"

text \<open>
  \<open>parseInt(s)\<close> with no radix: leading white space is skipped, one sign is read, a
  \<open>0x\<close>/\<open>0X\<close> prefix selects radix 16, and the longest run of digits of the radix is
  converted. No digit gives \<open>NaN\<close>, which is \<open>None\<close> here. Characters are bytes, so only
  the ASCII white space is skipped, and the result is the exact integer (the rounding of
  a JavaScript number above \<open>2^53\<close> is not modelled).
\<close>

definition js_white :: "char \<Rightarrow> bool" where
  "js_white c \<longleftrightarrow> c \<in> set [CHR 0x09, CHR 0x0A, CHR 0x0B, CHR 0x0C, CHR 0x0D, CHR 0x20]"

definition digit_val :: "char \<Rightarrow> nat option" where
  "digit_val = map_of
     [(CHR ''0'', 0), (CHR ''1'', 1), (CHR ''2'', 2), (CHR ''3'', 3), (CHR ''4'', 4),
      (CHR ''5'', 5), (CHR ''6'', 6), (CHR ''7'', 7), (CHR ''8'', 8), (CHR ''9'', 9),
      (CHR ''a'', 10), (CHR ''b'', 11), (CHR ''c'', 12), (CHR ''d'', 13), (CHR ''e'', 14),
      (CHR ''f'', 15), (CHR ''A'', 10), (CHR ''B'', 11), (CHR ''C'', 12), (CHR ''D'', 13),
      (CHR ''E'', 14), (CHR ''F'', 15)]"

definition radix_digit :: "nat \<Rightarrow> char \<Rightarrow> bool" where
  "radix_digit r c \<longleftrightarrow> (case digit_val c of None \<Rightarrow> False | Some d \<Rightarrow> d < r)"

fun digits_value :: "nat \<Rightarrow> nat \<Rightarrow> string \<Rightarrow> nat" where
  "digits_value r acc [] = acc"
| "digits_value r acc (c # cs) =
     digits_value r (acc * r + (case digit_val c of None \<Rightarrow> 0 | Some d \<Rightarrow> d)) cs"

fun strip_sign :: "string \<Rightarrow> int \<times> string" where
  "strip_sign (c # cs) =
     (if c = CHR ''-'' then (- 1, cs) else if c = CHR ''+'' then (1, cs) else (1, c # cs))"
| "strip_sign [] = (1, [])"

fun strip_radix :: "string \<Rightarrow> nat \<times> string" where
  "strip_radix (a # b # cs) =
     (if a = CHR ''0'' \<and> (b = CHR ''x'' \<or> b = CHR ''X'') then (16, cs) else (10, a # b # cs))"
| "strip_radix cs = (10, cs)"

definition js_parseInt :: "string \<Rightarrow> int option" where
  "js_parseInt s =
     (case strip_sign (dropWhile js_white s) of (sign, s1) \<Rightarrow>
      case strip_radix s1 of (r, s2) \<Rightarrow>
      let ds = takeWhile (radix_digit r) s2
      in if ds = [] then None else Some (sign * int (digits_value r 0 ds)))"

section \<open>The relational store\<close>

text \<open>
  Times are integers in milliseconds, the resolution at which the driver hands a
  \<open>created_at\<close> to the route. A \<open>numeric\<close> of the store is an exact decimal or its
  \<open>NaN\<close>; the rounding of \<open>parseFloat\<close> to a double is not modelled.
\<close>

type_synonym time = int

datatype numeric = Num rat | NaN

text \<open>
  A value of a JSON payload, as far as \<open>->>\<close> and the cast to \<open>numeric\<close> see it:
  \<open>null\<close>, a number, or anything else (a string, a boolean, an array, an object) given
  by the text that \<open>->>\<close> yields for it.
\<close>

datatype jvalue = JNull | JNum rat | JText string

record device =
  dev_id :: int
  dev_company_id :: int
  dev_device_type_id :: int
  dev_hierarchy_id :: "int option"
  dev_location :: "string option"

record device_data =
  dd_device_id :: int
  dd_serial_number :: string
  dd_created_at :: time
  dd_data :: "string \<rightharpoonup> jvalue"

record device_latest =
  dl_device_id :: int
  dl_serial_number :: string
  dl_updated_at :: time
  dl_data :: "string \<rightharpoonup> jvalue"

record device_type =
  dt_id :: int
  dt_type_name :: string

record hierarchy =
  h_id :: int
  h_parent_id :: "int option"

record series_spec =
  displayName :: string
  dataSourceProperty :: string
  unit :: "string option"
  propertyName :: string

record data_source_config =
  deviceTypeId :: "int option"
  seriesConfig :: "series_spec list option"

record widget_definition =
  wd_id :: string
  wd_widget_type_id :: string
  wd_data_source_config :: "data_source_config option"

record widget_type =
  wt_id :: string
  wt_component_name :: string
  wt_name :: string

text \<open>
  The store holds the tables the two routes read, and its conversion of text to
  \<open>numeric\<close> (\<open>None\<close> where the store raises "invalid input syntax for type numeric").
\<close>

record store =
  widget_definitions :: "widget_definition list"
  widget_types :: "widget_type list"
  devices :: "device list"
  device_datas :: "device_data list"
  device_latests :: "device_latest list"
  device_types :: "device_type list"
  hierarchies :: "hierarchy list"
  numeric_in :: "string \<Rightarrow> numeric option"

datatype store_error =
  InvalidLimit
  | NegativeLimit int
  | LimitOutOfRange int
  | InvalidNumeric string
  | ConfigIsNull

section \<open>The widget lookup\<close>

text \<open>
  \<open>SELECT wd.data_source_config, ... FROM widget_definitions wd
     INNER JOIN widget_types wt ON wd.widget_type_id = wt.id WHERE wd.id = $1\<close>
\<close>

definition widget_lookup :: "store \<Rightarrow> string \<Rightarrow> (widget_definition \<times> widget_type) list" where
  "widget_lookup st wid =
     [(wd, wt). wd \<leftarrow> widget_definitions st, wt \<leftarrow> widget_types st,
                wd_widget_type_id wd = wt_id wt, wd_id wd = wid]"

section \<open>The series query\<close>

definition ms_hour :: int where
  "ms_hour = 3600000"

definition ms_day :: int where
  "ms_day = 24 * ms_hour"

text \<open>
  The chain of comparisons that builds \<open>timeFilter\<close>: the length of the trailing window,
  or \<open>None\<close> for the empty filter text. An interval of days is taken as 24 hours each.
\<close>

definition timeFilter :: "string \<Rightarrow> int option" where
  "timeFilter timeRange =
     (if timeRange = ''1h'' then Some ms_hour
      else if timeRange = ''6h'' then Some (6 * ms_hour)
      else if timeRange = ''24h'' then Some (24 * ms_hour)
      else if timeRange = ''7d'' then Some (7 * ms_day)
      else if timeRange = ''30d'' then Some (30 * ms_day)
      else None)"

record series_params =
  sp_key :: string
  sp_company :: int
  sp_device_type :: "int option"
  sp_limit :: "int option"

definition joined :: "store \<Rightarrow> (device_data \<times> device) list" where
  "joined st = [(dd, d). dd \<leftarrow> device_datas st, d \<leftarrow> devices st, dd_device_id dd = dev_id d]"

definition in_window :: "int option \<Rightarrow> time \<Rightarrow> time \<Rightarrow> bool" where
  "in_window tf now t \<longleftrightarrow> (case tf of None \<Rightarrow> True | Some w \<Rightarrow> now - w \<le> t)"

definition series_where ::
  "series_params \<Rightarrow> int option \<Rightarrow> time \<Rightarrow> device_data \<times> device \<Rightarrow> bool" where
  "series_where p tf now r \<longleftrightarrow>
     dev_company_id (snd r) = sp_company p
     \<and> Some (dev_device_type_id (snd r)) = sp_device_type p
     \<and> in_window tf now (dd_created_at (fst r))
     \<and> dd_data (fst r) (sp_key p) \<noteq> None"

text \<open>
  \<open>LIMIT $4\<close> with the value bound by the driver: \<open>NaN\<close> is not a \<open>bigint\<close>, a negative
  count is refused, and a count beyond \<open>bigint\<close> is out of range.
\<close>

definition store_limit :: "int option \<Rightarrow> store_error + nat" where
  "store_limit l =
     (case l of None \<Rightarrow> Inl InvalidLimit
      | Some n \<Rightarrow> if n < 0 then Inl (NegativeLimit n)
                  else if n > 9223372036854775807 then Inl (LimitOutOfRange n)
                  else Inr (nat n))"

text \<open>
  The rows the query selects, each with the device it was joined to: the join, the
  \<open>WHERE\<close> clause, \<open>ORDER BY dd.created_at ASC\<close> (rows of equal time stay in table
  order) and the row limit.
\<close>

definition series_rows ::
  "store \<Rightarrow> series_params \<Rightarrow> int option \<Rightarrow> time \<Rightarrow> nat \<Rightarrow> (device_data \<times> device) list" where
  "series_rows st p tf now n =
     take n (sort_key (\<lambda>r. dd_created_at (fst r)) (filter (series_where p tf now) (joined st)))"

text \<open>
  \<open>(dd.data->>$1)::numeric\<close>: \<open>NULL\<close> for a JSON \<open>null\<close>, the number itself for a JSON
  number, and the store's conversion of the text otherwise, which raises on text that
  is no numeric literal.
\<close>

definition cast_numeric ::
  "(string \<Rightarrow> numeric option) \<Rightarrow> jvalue option \<Rightarrow> store_error + numeric option" where
  "cast_numeric nin v =
     (case v of None \<Rightarrow> Inr None
      | Some JNull \<Rightarrow> Inr None
      | Some (JNum x) \<Rightarrow> Inr (Some (Num x))
      | Some (JText s) \<Rightarrow> (case nin s of None \<Rightarrow> Inl (InvalidNumeric s)
                           | Some n \<Rightarrow> Inr (Some n)))"

definition coalesce0 :: "numeric option \<Rightarrow> numeric" where
  "coalesce0 v = (case v of None \<Rightarrow> Num 0 | Some n \<Rightarrow> n)"

record query_row =
  row_timestamp :: time
  row_serial_number :: string
  row_value :: numeric

definition select_row ::
  "(string \<Rightarrow> numeric option) \<Rightarrow> string \<Rightarrow> device_data \<times> device \<Rightarrow> store_error + query_row" where
  "select_row nin key r =
     (case cast_numeric nin (dd_data (fst r) key) of
        Inl e \<Rightarrow> Inl e
      | Inr v \<Rightarrow> Inr \<lparr>row_timestamp = dd_created_at (fst r),
                      row_serial_number = dd_serial_number (fst r),
                      row_value = coalesce0 v\<rparr>)"

fun select_rows ::
  "(string \<Rightarrow> numeric option) \<Rightarrow> string \<Rightarrow> (device_data \<times> device) list
     \<Rightarrow> store_error + query_row list" where
  "select_rows nin key [] = Inr []"
| "select_rows nin key (r # rs) =
     (case select_row nin key r of
        Inl e \<Rightarrow> Inl e
      | Inr x \<Rightarrow> (case select_rows nin key rs of Inl e \<Rightarrow> Inl e | Inr xs \<Rightarrow> Inr (x # xs)))"

text \<open>
  \<open>database.query(seriesQuery, [s.dataSourceProperty, companyId, deviceTypeId,
  parseInt(limit)])\<close>. The output expression, with its cast, is evaluated on the rows
  the query returns; with \<open>LIMIT 0\<close> that is no row.
\<close>

definition seriesQuery ::
  "store \<Rightarrow> series_params \<Rightarrow> int option \<Rightarrow> time \<Rightarrow> store_error + query_row list" where
  "seriesQuery st p tf now =
     (case store_limit (sp_limit p) of
        Inl e \<Rightarrow> Inl e
      | Inr n \<Rightarrow> select_rows (numeric_in st) (sp_key p) (series_rows st p tf now n))"

section \<open>GET /widget-data/:widgetId\<close>

text \<open>
  A request: the path parameter, the query string (an absent parameter is \<open>None\<close>; the
  route destructures \<open>limit\<close> and \<open>timeRange\<close> only), the company of the authenticated
  user, and the instant that \<open>NOW()\<close> denotes in the queries of this request. Widget ids
  are compared as text.
\<close>

record request =
  widgetId :: string
  q_limit :: "string option"
  q_timeRange :: "string option"
  q_hierarchyId :: "string option"
  q_deviceId :: "string option"
  user_company_id :: int
  now :: time

record point =
  p_timestamp :: time
  p_serialNumber :: string
  p_value :: rat

record series_result =
  sr_data :: "point list"
  sr_unit :: string
  sr_propertyName :: string

datatype query =
  WidgetQuery string
  | SeriesQuery series_params "int option"

datatype response =
  Status404 bool string
  | Status200 bool "(string \<times> series_result) list" data_source_config "string option"
  | Status500 bool string store_error

text \<open>\<open>parseFloat(row.value) || 0\<close> on a \<open>numeric\<close> of the store.\<close>

definition js_number_or_0 :: "numeric \<Rightarrow> rat" where
  "js_number_or_0 v = (case v of Num x \<Rightarrow> x | NaN \<Rightarrow> 0)"

definition to_point :: "query_row \<Rightarrow> point" where
  "to_point row = \<lparr>p_timestamp = row_timestamp row,
                   p_serialNumber = row_serial_number row,
                   p_value = js_number_or_0 (row_value row)\<rparr>"

text \<open>\<open>parseInt(limit)\<close> with \<open>limit = 200\<close> when the query string has none.\<close>

definition limit_param :: "request \<Rightarrow> int option" where
  "limit_param rq = (case q_limit rq of None \<Rightarrow> Some 200 | Some s \<Rightarrow> js_parseInt s)"

definition timeRange_of :: "request \<Rightarrow> string" where
  "timeRange_of rq = (case q_timeRange rq of None \<Rightarrow> ''24h'' | Some s \<Rightarrow> s)"

definition params_of :: "request \<Rightarrow> data_source_config \<Rightarrow> series_spec \<Rightarrow> series_params" where
  "params_of rq cfg s = \<lparr>sp_key = dataSourceProperty s,
                         sp_company = user_company_id rq,
                         sp_device_type = deviceTypeId cfg,
                         sp_limit = limit_param rq\<rparr>"

definition or_empty :: "string option \<Rightarrow> string" where
  "or_empty u = (case u of None \<Rightarrow> [] | Some x \<Rightarrow> x)"

text \<open>One pass of the loop body: the query of series \<open>s\<close> and the entry built from it.\<close>

definition fetch_series ::
  "store \<Rightarrow> request \<Rightarrow> data_source_config \<Rightarrow> series_spec \<Rightarrow> store_error + series_result" where
  "fetch_series st rq cfg s =
     (case seriesQuery st (params_of rq cfg s) (timeFilter (timeRange_of rq)) (now rq) of
        Inl e \<Rightarrow> Inl e
      | Inr rows \<Rightarrow> Inr \<lparr>sr_data = map to_point rows,
                         sr_unit = or_empty (unit s),
                         sr_propertyName = propertyName s\<rparr>)"

text \<open>
  The loop over \<open>seriesConfig\<close>, with the object \<open>seriesData\<close> and the queries issued so
  far. A query that raises ends the loop.
\<close>

fun series_loop ::
  "store \<Rightarrow> request \<Rightarrow> data_source_config \<Rightarrow> series_spec list
     \<Rightarrow> (string \<times> series_result) list \<Rightarrow> query list
     \<Rightarrow> (store_error + (string \<times> series_result) list) \<times> query list" where
  "series_loop st rq cfg [] seriesData qs = (Inr seriesData, qs)"
| "series_loop st rq cfg (s # ss) seriesData qs =
     (let qs' = qs @ [SeriesQuery (params_of rq cfg s) (timeFilter (timeRange_of rq))]
      in case fetch_series st rq cfg s of
           Inl e \<Rightarrow> (Inl e, qs')
         | Inr r \<Rightarrow> series_loop st rq cfg ss (obj_set (displayName s) r seriesData) qs')"

definition no_series :: "data_source_config \<Rightarrow> response" where
  "no_series cfg = Status200 True [] cfg (Some ''No series configured'')"

definition server_error :: "store_error \<Rightarrow> response" where
  "server_error e = Status500 False ''Failed to fetch widget data'' e"

text \<open>The handler: its response and the queries it sent to the store, in order.\<close>

definition widget_data :: "store \<Rightarrow> request \<Rightarrow> response \<times> query list" where
  "widget_data st rq =
     (let qs = [WidgetQuery (widgetId rq)]
      in case widget_lookup st (widgetId rq) of
           [] \<Rightarrow> (Status404 False ''Widget not found'', qs)
         | w # _ \<Rightarrow>
             (case wd_data_source_config (fst w) of
                None \<Rightarrow> (server_error ConfigIsNull, qs)
              | Some cfg \<Rightarrow>
                  (case seriesConfig cfg of
                     None \<Rightarrow> (no_series cfg, qs)
                   | Some [] \<Rightarrow> (no_series cfg, qs)
                   | Some (s # ss) \<Rightarrow>
                       (case series_loop st rq cfg (s # ss) [] qs of
                          (Inl e, qs') \<Rightarrow> (server_error e, qs')
                        | (Inr seriesData, qs') \<Rightarrow>
                            (Status200 True seriesData cfg None, qs')))))"

section \<open>GET /widget-data/:widgetId/latest\<close>

text \<open>
  \<open>SELECT dl.updated_at, dl.serial_number, dl.data->>$1, d.metadata->>'location',
  dt.type_name FROM device_latest dl INNER JOIN device d ON dl.device_id = d.id
  INNER JOIN device_type dt ON d.device_type_id = dt.id
  WHERE d.company_id = $2 AND d.device_type_id = $3 ORDER BY dl.updated_at DESC\<close>
\<close>

definition latest_joined :: "store \<Rightarrow> (device_latest \<times> device \<times> device_type) list" where
  "latest_joined st =
     [(dl, d, dt). dl \<leftarrow> device_latests st, d \<leftarrow> devices st, dl_device_id dl = dev_id d,
                   dt \<leftarrow> device_types st, dev_device_type_id d = dt_id dt]"

definition latest_where :: "int \<Rightarrow> int option \<Rightarrow> device_latest \<times> device \<times> device_type \<Rightarrow> bool" where
  "latest_where company dtype r \<longleftrightarrow>
     dev_company_id (fst (snd r)) = company \<and> Some (dev_device_type_id (fst (snd r))) = dtype"

definition latest_rows ::
  "store \<Rightarrow> int \<Rightarrow> int option \<Rightarrow> (device_latest \<times> device \<times> device_type) list" where
  "latest_rows st company dtype =
     sort_key (\<lambda>r. - dl_updated_at (fst r)) (filter (latest_where company dtype) (latest_joined st))"

record latest_point =
  lp_timestamp :: time
  lp_serialNumber :: string
  lp_value :: rat
  lp_location :: "string option"
  lp_deviceType :: string

record latest_result =
  lr_latest :: "latest_point list"
  lr_aggregatedValue :: "rat option"
  lr_count :: nat
  lr_unit :: "string option"

text \<open>
  \<open>parseFloat(row.value) || 0\<close> on the text of \<open>dl.data->>$1\<close>: \<open>NULL\<close> (no such key,
  or a JSON \<open>null\<close>) gives 0, the text of a JSON number gives the number, and other
  text goes through \<open>parseFloat\<close>, a parameter here (\<open>None\<close> for \<open>NaN\<close>).
\<close>

definition latest_value :: "(string \<Rightarrow> rat option) \<Rightarrow> jvalue option \<Rightarrow> rat" where
  "latest_value parseFloat v =
     (case v of None \<Rightarrow> 0
      | Some JNull \<Rightarrow> 0
      | Some (JNum x) \<Rightarrow> x
      | Some (JText s) \<Rightarrow> (case parseFloat s of None \<Rightarrow> 0 | Some x \<Rightarrow> x))"

definition to_latest_point ::
  "(string \<Rightarrow> rat option) \<Rightarrow> string \<Rightarrow> device_latest \<times> device \<times> device_type \<Rightarrow> latest_point" where
  "to_latest_point parseFloat key r =
     \<lparr>lp_timestamp = dl_updated_at (fst r),
      lp_serialNumber = dl_serial_number (fst r),
      lp_value = latest_value parseFloat (dl_data (fst r) key),
      lp_location = dev_location (fst (snd r)),
      lp_deviceType = dt_type_name (snd (snd r))\<rparr>"

definition aggregate :: "latest_point list \<Rightarrow> rat option" where
  "aggregate formattedData =
     (if length formattedData > 0
      then Some (fold (\<lambda>item acc. acc + lp_value item) formattedData 0
                   / of_nat (length formattedData))
      else None)"

definition latest_series ::
  "(string \<Rightarrow> rat option) \<Rightarrow> store \<Rightarrow> request \<Rightarrow> data_source_config \<Rightarrow> series_spec
     \<Rightarrow> latest_result" where
  "latest_series parseFloat st rq cfg s =
     (let formattedData = map (to_latest_point parseFloat (dataSourceProperty s))
                              (latest_rows st (user_company_id rq) (deviceTypeId cfg))
      in \<lparr>lr_latest = formattedData,
          lr_aggregatedValue = aggregate formattedData,
          lr_count = length formattedData,
          lr_unit = unit s\<rparr>)"

datatype latest_response =
  Latest404 bool string
  | LatestNoSeries bool string
  | Latest200 bool "(string \<times> latest_result) list" data_source_config
  | Latest500 bool string store_error

definition widget_latest ::
  "(string \<Rightarrow> rat option) \<Rightarrow> store \<Rightarrow> request \<Rightarrow> latest_response" where
  "widget_latest parseFloat st rq =
     (case widget_lookup st (widgetId rq) of
        [] \<Rightarrow> Latest404 False ''Widget not found''
      | w # _ \<Rightarrow>
          (case wd_data_source_config (fst w) of
             None \<Rightarrow> Latest500 False ''Failed to fetch latest widget data'' ConfigIsNull
           | Some cfg \<Rightarrow>
               (case seriesConfig cfg of
                  None \<Rightarrow> LatestNoSeries True ''No series configured''
                | Some [] \<Rightarrow> LatestNoSeries True ''No series configured''
                | Some (s # ss) \<Rightarrow>
                    Latest200 True
                      (fold (\<lambda>s seriesData.
                               obj_set (displayName s) (latest_series parseFloat st rq cfg s) seriesData)
                            (s # ss) [])
                      cfg)))"

section \<open>The chart normalizer\<close>

text \<open>
  \<open>formatChartData\<close> of the line chart. A point carries the result of
  \<open>new Date(point.timestamp).getTime()\<close>, a number of milliseconds (the route sends
  valid dates). A row is the object \<open>{ timestamp, [seriesName]: value, ... }\<close>: one
  property list in which the row's time and the series columns live side by side.
\<close>

record chart_point =
  cp_timestamp :: time
  cp_value :: rat

record series_data =
  sd_data :: "chart_point list option"
  sd_unit :: "string option"

type_synonym chart_row = "(string \<times> rat) list"

record chart =
  cd_data :: "chart_row list"
  cd_keys :: "string list"
  cd_units :: "(string \<times> string) list"

definition add_point :: "string \<Rightarrow> chart_point \<Rightarrow> (time \<times> chart_row) list \<Rightarrow> (time \<times> chart_row) list" where
  "add_point seriesName pt dataMap =
     (let t = cp_timestamp pt;
          row = (case obj_get dataMap t of None \<Rightarrow> [(''timestamp'', of_int t)] | Some r \<Rightarrow> r)
      in obj_set t (obj_set seriesName (cp_value pt) row) dataMap)"

definition add_series ::
  "string \<times> series_data
     \<Rightarrow> (time \<times> chart_row) list \<times> string list \<times> (string \<times> string) list
     \<Rightarrow> (time \<times> chart_row) list \<times> string list \<times> (string \<times> string) list" where
  "add_series e acc =
     (case acc of (dataMap, keys, unitsMap) \<Rightarrow>
        ((case sd_data (snd e) of None \<Rightarrow> dataMap
          | Some pts \<Rightarrow> fold (add_point (fst e)) pts dataMap),
         keys @ [fst e],
         obj_set (fst e) (or_empty (sd_unit (snd e))) unitsMap))"

text \<open>The sort key \<open>a.timestamp\<close>; every row is created with the property.\<close>

definition row_time :: "chart_row \<Rightarrow> rat" where
  "row_time row = (case obj_get row ''timestamp'' of None \<Rightarrow> 0 | Some t \<Rightarrow> t)"

definition formatChartData :: "(string \<times> series_data) list \<Rightarrow> chart" where
  "formatChartData seriesData =
     (case fold add_series seriesData ([], [], []) of (dataMap, keys, unitsMap) \<Rightarrow>
        \<lparr>cd_data = sort_key row_time (map snd dataMap), cd_keys = keys, cd_units = unitsMap\<rparr>)"

section \<open>The hierarchy subtree\<close>

text \<open>
  Modelled from the spec: \<open>resolveSubtree\<close> (the Hierarchy Resolver), which the route
  file does not contain. It is the closure the spec describes and the repository's guide
  writes as
  \<open>WITH RECURSIVE hierarchy_tree AS (SELECT id FROM hierarchy WHERE id = $4 UNION ALL
     SELECT h.id FROM hierarchy h JOIN hierarchy_tree ht ON h.parent_id = ht.id)\<close>:
  the root if it exists, then round by round the children of the last round, for as many
  rounds as the table has rows.
\<close>

fun subtree_rounds :: "nat \<Rightarrow> hierarchy list \<Rightarrow> int list \<Rightarrow> int list" where
  "subtree_rounds 0 hs frontier = []"
| "subtree_rounds (Suc k) hs frontier =
     (if frontier = [] then []
      else frontier @ subtree_rounds k hs
             [h_id h. f \<leftarrow> frontier, h \<leftarrow> hs, h_parent_id h = Some f])"

definition resolveSubtree :: "hierarchy list \<Rightarrow> int \<Rightarrow> int list" where
  "resolveSubtree hs rootId =
     subtree_rounds (Suc (length hs)) hs [h_id h. h \<leftarrow> hs, h_id h = rootId]"

section \<open>Auxiliary notions for the statements\<close>

text \<open>One assignment \<open>seriesData[s.displayName] = r\<close> of the loop.\<close>

definition loop_step ::
  "series_spec \<times> series_result \<Rightarrow> (string \<times> series_result) list \<Rightarrow> (string \<times> series_result) list" where
  "loop_step e acc = obj_set (displayName (fst e)) (snd e) acc"

text \<open>The store with the devices of every other company removed.\<close>

definition own_devices :: "int \<Rightarrow> store \<Rightarrow> store" where
  "own_devices c st = st\<lparr>devices := filter (\<lambda>d. dev_company_id d = c) (devices st)\<rparr>"

text \<open>The part of the \<open>WHERE\<close> clause that does not look at the time.\<close>

definition in_scope :: "series_params \<Rightarrow> device_data \<times> device \<Rightarrow> bool" where
  "in_scope p r \<longleftrightarrow>
     dev_company_id (snd r) = sp_company p
     \<and> Some (dev_device_type_id (snd r)) = sp_device_type p
     \<and> dd_data (fst r) (sp_key p) \<noteq> None"

text \<open>
  For the normalizer: the points of a series, the times of all points of all series, the
  value of the last point of a series at a time, and what a row for time \<open>t\<close> is to hold
  under each key.
\<close>

definition points_of :: "series_data \<Rightarrow> chart_point list" where
  "points_of sd = (case sd_data sd of None \<Rightarrow> [] | Some pts \<Rightarrow> pts)"

definition all_times :: "(string \<times> series_data) list \<Rightarrow> time list" where
  "all_times es = concat (map (\<lambda>e. map cp_timestamp (points_of (snd e))) es)"

fun last_value :: "chart_point list \<Rightarrow> time \<Rightarrow> rat option" where
  "last_value [] t = None"
| "last_value (p # ps) t =
     (case last_value ps t of
        Some v \<Rightarrow> Some v
      | None \<Rightarrow> if cp_timestamp p = t then Some (cp_value p) else None)"

definition row_spec :: "(string \<times> series_data) list \<Rightarrow> time \<Rightarrow> string \<Rightarrow> rat option" where
  "row_spec es t k =
     (if k = ''timestamp'' then Some (of_int t)
      else case map_of es k of None \<Rightarrow> None | Some sd \<Rightarrow> last_value (points_of sd) t)"

text \<open>The loop body of \<open>formatChartData\<close> on \<open>dataMap\<close> alone.\<close>

definition dataMap_step ::
  "string \<times> series_data \<Rightarrow> (time \<times> chart_row) list \<Rightarrow> (time \<times> chart_row) list" where
  "dataMap_step e dataMap =
     (case sd_data (snd e) of None \<Rightarrow> dataMap
      | Some pts \<Rightarrow> fold (add_point (fst e)) pts dataMap)"

text \<open>
  \<open>dataMap\<close> after the series \<open>es\<close>, and after the points \<open>seen\<close> of one more series
  \<open>name\<close>: one row per time, each holding what \<open>row_spec\<close> says.
\<close>

definition table_ok :: "(time \<times> chart_row) list \<Rightarrow> (string \<times> series_data) list \<Rightarrow> bool" where
  "table_ok dm es \<longleftrightarrow>
     distinct (map fst dm) \<and> fst ` set dm = set (all_times es)
     \<and> list_all (\<lambda>e. map_of (snd e) = row_spec es (fst e)) dm"

definition partial_ok ::
  "(time \<times> chart_row) list \<Rightarrow> (string \<times> series_data) list \<Rightarrow> string \<Rightarrow> chart_point list \<Rightarrow> bool" where
  "partial_ok dm es name seen \<longleftrightarrow>
     distinct (map fst dm) \<and> fst ` set dm = set (all_times es) \<union> cp_timestamp ` set seen
     \<and> list_all (\<lambda>e. map_of (snd e) = (row_spec es (fst e))(name := last_value seen (fst e))) dm"

section \<open>A small store for the examples\<close>

text \<open>
  A conversion to \<open>numeric\<close> that accepts signed integer literals only. It is enough for
  the examples: like the store's own, it refuses \<open>abc\<close>.
\<close>

definition plain_numeric_in :: "string \<Rightarrow> numeric option" where
  "plain_numeric_in s =
     (case strip_sign s of (sign, ds) \<Rightarrow>
        if ds \<noteq> [] \<and> list_all (radix_digit 10) ds
        then Some (Num (of_int (sign * int (digits_value 10 0 ds))))
        else None)"

definition ofr_series :: series_spec where
  "ofr_series = \<lparr>displayName = ''OFR'', dataSourceProperty = ''ofr'',
                  unit = Some ''l/min'', propertyName = ''Oil Flow Rate''\<rparr>"

definition flow_a :: series_spec where
  "flow_a = \<lparr>displayName = ''Flow'', dataSourceProperty = ''ofr'',
              unit = Some ''l/min'', propertyName = ''Oil Flow Rate''\<rparr>"

definition flow_b :: series_spec where
  "flow_b = \<lparr>displayName = ''Flow'', dataSourceProperty = ''wfr'',
              unit = None, propertyName = ''Water Flow Rate''\<rparr>"

definition gvf_series :: series_spec where
  "gvf_series = \<lparr>displayName = ''GVF'', dataSourceProperty = ''gvf'',
                  unit = Some ''%'', propertyName = ''Gas Volume Fraction''\<rparr>"

definition ofr_config :: data_source_config where
  "ofr_config = \<lparr>deviceTypeId = Some 1, seriesConfig = Some [ofr_series]\<rparr>"

definition bare_config :: data_source_config where
  "bare_config = \<lparr>deviceTypeId = Some 1, seriesConfig = Some []\<rparr>"

definition flow_config :: data_source_config where
  "flow_config = \<lparr>deviceTypeId = Some 1, seriesConfig = Some [flow_a, flow_b]\<rparr>"

definition gvf_config :: data_source_config where
  "gvf_config = \<lparr>deviceTypeId = Some 1, seriesConfig = Some [gvf_series]\<rparr>"

text \<open>
  Hierarchy: node 5 with child 6, and a separate root 9. Devices 1, 2 and 4 belong to
  company 1 (device 2 sits under node 9, device 4 is of another type); device 3 belongs
  to company 2.
\<close>

definition demo_store :: store where
  "demo_store = \<lparr>
     widget_definitions =
       [\<lparr>wd_id = ''w1'', wd_widget_type_id = ''line'', wd_data_source_config = Some ofr_config\<rparr>,
        \<lparr>wd_id = ''w2'', wd_widget_type_id = ''line'', wd_data_source_config = Some bare_config\<rparr>,
        \<lparr>wd_id = ''w3'', wd_widget_type_id = ''line'', wd_data_source_config = Some flow_config\<rparr>,
        \<lparr>wd_id = ''w4'', wd_widget_type_id = ''line'', wd_data_source_config = Some gvf_config\<rparr>],
     widget_types =
       [\<lparr>wt_id = ''line'', wt_component_name = ''CustomLineChart'', wt_name = ''line_chart''\<rparr>],
     devices =
       [\<lparr>dev_id = 1, dev_company_id = 1, dev_device_type_id = 1,
          dev_hierarchy_id = Some 6, dev_location = Some ''North''\<rparr>,
        \<lparr>dev_id = 2, dev_company_id = 1, dev_device_type_id = 1,
          dev_hierarchy_id = Some 9, dev_location = None\<rparr>,
        \<lparr>dev_id = 3, dev_company_id = 2, dev_device_type_id = 1,
          dev_hierarchy_id = Some 6, dev_location = None\<rparr>,
        \<lparr>dev_id = 4, dev_company_id = 1, dev_device_type_id = 2,
          dev_hierarchy_id = Some 6, dev_location = None\<rparr>],
     device_datas =
       [\<lparr>dd_device_id = 1, dd_serial_number = ''DEV001'', dd_created_at = 90000000,
          dd_data = [''ofr'' \<mapsto> JNum 95, ''wfr'' \<mapsto> JNum 12]\<rparr>,
        \<lparr>dd_device_id = 2, dd_serial_number = ''DEV002'', dd_created_at = 80000000,
          dd_data = [''ofr'' \<mapsto> JNum 101]\<rparr>,
        \<lparr>dd_device_id = 3, dd_serial_number = ''DEV003'', dd_created_at = 85000000,
          dd_data = [''ofr'' \<mapsto> JNum 70]\<rparr>,
        \<lparr>dd_device_id = 4, dd_serial_number = ''DEV004'', dd_created_at = 86000000,
          dd_data = [''ofr'' \<mapsto> JNum 60]\<rparr>,
        \<lparr>dd_device_id = 1, dd_serial_number = ''DEV001'', dd_created_at = 70000000,
          dd_data = [''gvf'' \<mapsto> JText ''abc'']\<rparr>,
        \<lparr>dd_device_id = 1, dd_serial_number = ''DEV001'', dd_created_at = 1000,
          dd_data = [''ofr'' \<mapsto> JNum 40]\<rparr>],
     device_latests =
       [\<lparr>dl_device_id = 1, dl_serial_number = ''DEV001'', dl_updated_at = 90000000,
          dl_data = [''ofr'' \<mapsto> JNum 95]\<rparr>,
        \<lparr>dl_device_id = 3, dl_serial_number = ''DEV003'', dl_updated_at = 85000000,
          dl_data = [''ofr'' \<mapsto> JNum 70]\<rparr>],
     device_types = [\<lparr>dt_id = 1, dt_type_name = ''MPFM''\<rparr>, \<lparr>dt_id = 2, dt_type_name = ''Gauge''\<rparr>],
     hierarchies =
       [\<lparr>h_id = 5, h_parent_id = None\<rparr>, \<lparr>h_id = 6, h_parent_id = Some 5\<rparr>,
        \<lparr>h_id = 9, h_parent_id = None\<rparr>],
     numeric_in = plain_numeric_in\<rparr>"

text \<open>A request of company 1 for widget \<open>w1\<close> with \<open>hierarchyId=5\<close>, at time \<open>10^8\<close>.\<close>

definition demo_request :: request where
  "demo_request = \<lparr>widgetId = ''w1'', q_limit = None, q_timeRange = None,
                    q_hierarchyId = Some ''5'', q_deviceId = None,
                    user_company_id = 1, now = 100000000\<rparr>"

text \<open>What the store above holds for \<open>ofr\<close> in the last 24 hours, for company 1 and type 1.\<close>

definition ofr_result :: series_result where
  "ofr_result =
     \<lparr>sr_data = [\<lparr>p_timestamp = 80000000, p_serialNumber = ''DEV002'', p_value = 101\<rparr>,
                 \<lparr>p_timestamp = 90000000, p_serialNumber = ''DEV001'', p_value = 95\<rparr>],
      sr_unit = ''l/min'', sr_propertyName = ''Oil Flow Rate''\<rparr>"


text \<open>The same with no time restriction, and with no row at all.\<close>

definition ofr_history :: series_result where
  "ofr_history =
     \<lparr>sr_data = [\<lparr>p_timestamp = 1000, p_serialNumber = ''DEV001'', p_value = 40\<rparr>,
                 \<lparr>p_timestamp = 80000000, p_serialNumber = ''DEV002'', p_value = 101\<rparr>,
                 \<lparr>p_timestamp = 90000000, p_serialNumber = ''DEV001'', p_value = 95\<rparr>],
      sr_unit = ''l/min'', sr_propertyName = ''Oil Flow Rate''\<rparr>"

definition ofr_nothing :: series_result where
  "ofr_nothing = \<lparr>sr_data = [], sr_unit = ''l/min'', sr_propertyName = ''Oil Flow Rate''\<rparr>"

text \<open>Inputs of the normalizer: the two series of the spec, and a series named \<open>timestamp\<close>.\<close>

definition series_A :: "time \<Rightarrow> time \<Rightarrow> string \<times> series_data" where
  "series_A t1 t2 = (''A'', \<lparr>sd_data = Some [\<lparr>cp_timestamp = t1, cp_value = 1\<rparr>,
                                              \<lparr>cp_timestamp = t2, cp_value = 2\<rparr>],
                             sd_unit = Some ''l/min''\<rparr>)"

definition series_B :: "time \<Rightarrow> string \<times> series_data" where
  "series_B t1 = (''B'', \<lparr>sd_data = Some [\<lparr>cp_timestamp = t1, cp_value = 9\<rparr>], sd_unit = None\<rparr>)"

definition series_clash :: "string \<times> series_data" where
  "series_clash = (''timestamp'', \<lparr>sd_data = Some [\<lparr>cp_timestamp = 1000, cp_value = 9999\<rparr>],
                                   sd_unit = None\<rparr>)"

section \<open>Lemmas on objects, the query and the loop\<close>

lemma map_of_obj_set: "map_of (obj_set k v al) = (map_of al)(k \<mapsto> v)"
  by (induction al) auto

lemma keys_obj_set:
  "map fst (obj_set k v al) = (if k \<in> fst ` set al then map fst al else map fst al @ [k])"
  by (induction al) auto


lemma set_obj_set: "set (obj_set k v al) \<subseteq> insert (k, v) (set al)"
  by (induction al) auto

lemma select_rows_Inr:
  "select_rows nin key rs = Inr xs \<Longrightarrow> list_all2 (\<lambda>x r. select_row nin key r = Inr x) xs rs"
  by (induction rs arbitrary: xs) (auto split: sum.splits)

lemma select_row_fields:
  "select_row nin key r = Inr x \<Longrightarrow>
     row_timestamp x = dd_created_at (fst r) \<and> row_serial_number x = dd_serial_number (fst r)"
  by (auto simp: select_row_def split: sum.splits)

lemma series_rows_set:
  "set (series_rows st p tf t n) \<subseteq> {r \<in> set (joined st). series_where p tf t r}"
  unfolding series_rows_def by (auto dest: in_set_takeD)

lemma series_rows_sorted:
  "sorted (map (\<lambda>r. dd_created_at (fst r)) (series_rows st p tf t n))"
  unfolding series_rows_def by (simp add: take_map[symmetric] sorted_wrt_take del: take_map)

lemma series_rows_length: "length (series_rows st p tf t n) \<le> n"
  unfolding series_rows_def by simp

lemma loop_step_pair [simp]: "loop_step (s, r) acc = obj_set (displayName s) r acc"
  by (simp add: loop_step_def)

lemma series_loop_Inr:
  "series_loop st rq cfg ss acc qs = (Inr seriesData, qs') \<Longrightarrow>
     \<exists>rs. list_all2 (\<lambda>s r. fetch_series st rq cfg s = Inr r) ss rs
          \<and> seriesData = fold loop_step (zip ss rs) acc
          \<and> qs' = qs @ map (\<lambda>s. SeriesQuery (params_of rq cfg s) (timeFilter (timeRange_of rq))) ss"
proof (induction ss arbitrary: acc qs)
  case Nil
  then show ?case by simp
next
  case (Cons s ss)
  from Cons.prems obtain r where r: "fetch_series st rq cfg s = Inr r"
    and rest: "series_loop st rq cfg ss (obj_set (displayName s) r acc)
                 (qs @ [SeriesQuery (params_of rq cfg s) (timeFilter (timeRange_of rq))]) = (Inr seriesData, qs')"
    by (auto simp: Let_def split: sum.splits)
  from Cons.IH[OF rest] obtain rs where
    "list_all2 (\<lambda>s r. fetch_series st rq cfg s = Inr r) ss rs"
    "seriesData = fold loop_step (zip ss rs) (obj_set (displayName s) r acc)"
    "qs' = (qs @ [SeriesQuery (params_of rq cfg s) (timeFilter (timeRange_of rq))])
             @ map (\<lambda>s. SeriesQuery (params_of rq cfg s) (timeFilter (timeRange_of rq))) ss"
    by blast
  with r show ?case
    by (intro exI[of _ "r # rs"]) simp
qed

lemma widget_data_200:
  assumes "fst (widget_data st rq) = Status200 ok seriesData cfg msg"
  shows "\<exists>w ws. widget_lookup st (widgetId rq) = w # ws \<and> wd_data_source_config (fst w) = Some cfg
     \<and> ((seriesConfig cfg = None \<or> seriesConfig cfg = Some []) \<and> seriesData = []
        \<or> (\<exists>ss rs. seriesConfig cfg = Some ss \<and> ss \<noteq> []
             \<and> list_all2 (\<lambda>s r. fetch_series st rq cfg s = Inr r) ss rs
             \<and> seriesData = fold loop_step (zip ss rs) []))"
  using assms
  by (auto simp: widget_data_def Let_def no_series_def server_error_def
           simp del: series_loop.simps
           split: list.splits option.splits prod.splits sum.splits
           dest!: series_loop_Inr)






lemma fold_loop_step_set:
  "set (fold loop_step kvs acc) \<subseteq> set acc \<union> (\<lambda>e. (displayName (fst e), snd e)) ` set kvs"
proof (induction kvs arbitrary: acc)
  case Nil
  then show ?case by simp
next
  case (Cons e kvs)
  from Cons.IH[of "loop_step e acc"] set_obj_set[of "displayName (fst e)" "snd e" acc]
  show ?case by (auto simp: loop_step_def)
qed

lemma fetch_series_Inr:
  assumes "fetch_series st rq cfg s = Inr r"
  shows "\<exists>n. store_limit (limit_param rq) = Inr n
     \<and> list_all2 (\<lambda>pt row. p_timestamp pt = dd_created_at (fst row)
                            \<and> p_serialNumber pt = dd_serial_number (fst row))
          (sr_data r)
          (series_rows st (params_of rq cfg s) (timeFilter (timeRange_of rq)) (now rq) n)"
proof -
  from assms obtain n xs where n: "store_limit (limit_param rq) = Inr n"
    and xs: "select_rows (numeric_in st) (dataSourceProperty s)
               (series_rows st (params_of rq cfg s) (timeFilter (timeRange_of rq)) (now rq) n) = Inr xs"
    and r: "sr_data r = map to_point xs"
    by (auto simp: fetch_series_def seriesQuery_def params_of_def split: sum.splits)
  from select_rows_Inr[OF xs]
  have "list_all2 (\<lambda>pt row. p_timestamp pt = dd_created_at (fst row)
                            \<and> p_serialNumber pt = dd_serial_number (fst row))
          (map to_point xs)
          (series_rows st (params_of rq cfg s) (timeFilter (timeRange_of rq)) (now rq) n)"
    by (auto simp: list_all2_map1 to_point_def dest: select_row_fields elim!: list_all2_mono)
  with n r show ?thesis by auto
qed

lemma store_limit_Inr: "store_limit l = Inr n \<Longrightarrow> l = Some (int n)"
  by (auto simp: store_limit_def split: option.splits if_splits)


text \<open>What the cast does to each kind of payload value, and to the query.\<close>

lemma select_rows_raises:
  assumes "r \<in> set rows" and "dd_data (fst r) key = Some (JText s)" and "nin s = None"
  shows "\<exists>e. select_rows nin key rows = Inl e"
  using assms(1)
proof (induction rows)
  case Nil
  then show ?case by simp
next
  case (Cons x rows)
  show ?case
  proof (cases "select_row nin key x")
    case (Inl e)
    then show ?thesis by simp
  next
    case (Inr y)
    have "x \<noteq> r"
      using Inr assms(2,3) by (auto simp: select_row_def cast_numeric_def)
    with Cons obtain e where "select_rows nin key rows = Inl e" by auto
    with Inr show ?thesis by simp
  qed
qed

lemma select_rows_values:
  assumes "select_rows nin key rows = Inr xs"
  shows "list_all2 (\<lambda>x r. \<exists>v. cast_numeric nin (dd_data (fst r) key) = Inr v
                            \<and> row_value x = coalesce0 v) xs rows"
  using select_rows_Inr[OF assms]
  by (rule list_all2_mono) (auto simp: select_row_def split: sum.splits)

lemma cast_numeric_cases:
  "cast_numeric nin (Some JNull) = Inr None"
  "cast_numeric nin (Some (JNum x)) = Inr (Some (Num x))"
  "nin s = Some n \<Longrightarrow> cast_numeric nin (Some (JText s)) = Inr (Some n)"
  "nin s = None \<Longrightarrow> cast_numeric nin (Some (JText s)) = Inl (InvalidNumeric s)"
  by (simp_all add: cast_numeric_def)

section \<open>Lemmas on tenants, windows and limits\<close>

lemma join_filter_devices:
  "concat (map (\<lambda>dd. concat (map (\<lambda>d. if dd_device_id dd = dev_id d then [(dd, d)] else [])
                                  (filter P ds))) dds)
   = filter (\<lambda>r. P (snd r))
       (concat (map (\<lambda>dd. concat (map (\<lambda>d. if dd_device_id dd = dev_id d then [(dd, d)] else []) ds)) dds))"
proof (induction dds)
  case Nil
  then show ?case by simp
next
  case (Cons dd dds)
  have "concat (map (\<lambda>d. if dd_device_id dd = dev_id d then [(dd, d)] else []) (filter P ds))
      = filter (\<lambda>r. P (snd r))
          (concat (map (\<lambda>d. if dd_device_id dd = dev_id d then [(dd, d)] else []) ds))"
    by (induction ds) auto
  with Cons show ?case by simp
qed

lemma joined_own_devices:
  "joined (own_devices c st) = filter (\<lambda>r. dev_company_id (snd r) = c) (joined st)"
  by (simp add: joined_def own_devices_def join_filter_devices)

lemma series_rows_own_devices:
  "series_rows (own_devices (sp_company p) st) p tf t n = series_rows st p tf t n"
proof -
  have "filter (series_where p tf t) (filter (\<lambda>r. dev_company_id (snd r) = sp_company p) (joined st))
      = filter (series_where p tf t) (joined st)"
    by (auto simp: series_where_def intro: filter_cong)
  then show ?thesis
    by (simp add: series_rows_def joined_own_devices del: filter_filter)
qed

lemma fetch_series_own_devices:
  "fetch_series (own_devices (user_company_id rq) st) rq cfg s = fetch_series st rq cfg s"
proof -
  have "sp_company (params_of rq cfg s) = user_company_id rq"
    by (simp add: params_of_def)
  with series_rows_own_devices[of "params_of rq cfg s" st]
  have "\<And>tf t n. series_rows (own_devices (user_company_id rq) st) (params_of rq cfg s) tf t n
          = series_rows st (params_of rq cfg s) tf t n"
    by simp
  moreover have "numeric_in (own_devices (user_company_id rq) st) = numeric_in st"
    by (simp add: own_devices_def)
  ultimately show ?thesis
    by (simp add: fetch_series_def seriesQuery_def cong: sum.case_cong)
qed

lemma series_loop_cong:
  assumes "\<And>s. fetch_series st' rq' cfg s = fetch_series st rq cfg s"
    and "\<And>s. params_of rq' cfg s = params_of rq cfg s"
    and "timeFilter (timeRange_of rq') = timeFilter (timeRange_of rq)"
  shows "series_loop st' rq' cfg ss acc qs = series_loop st rq cfg ss acc qs"
  by (induction ss arbitrary: acc qs) (simp_all add: assms Let_def split: sum.splits)

lemma widget_data_cong:
  assumes "\<And>cfg s. fetch_series st' rq' cfg s = fetch_series st rq cfg s"
    and "\<And>cfg s. params_of rq' cfg s = params_of rq cfg s"
    and "timeFilter (timeRange_of rq') = timeFilter (timeRange_of rq)"
    and "widget_lookup st' (widgetId rq) = widget_lookup st (widgetId rq)"
    and "widgetId rq' = widgetId rq"
  shows "widget_data st' rq' = widget_data st rq"
proof -
  have "\<And>cfg ss acc qs. series_loop st' rq' cfg ss acc qs = series_loop st rq cfg ss acc qs"
    by (rule series_loop_cong) (simp_all add: assms)
  then show ?thesis
    unfolding widget_data_def
    by (simp add: assms(4,5) del: series_loop.simps
             cong: list.case_cong option.case_cong)
qed

lemma widget_lookup_own_devices:
  "widget_lookup (own_devices c st) wid = widget_lookup st wid"
  by (simp add: widget_lookup_def own_devices_def)

lemma concat_map_filter_source:
  assumes "\<And>d r. r \<in> set (g d) \<Longrightarrow> k r = d"
  shows "concat (map g (filter P ds)) = filter (\<lambda>r. P (k r)) (concat (map g ds))"
proof (induction ds)
  case Nil
  then show ?case by simp
next
  case (Cons d ds)
  have "filter (\<lambda>r. P (k r)) (g d) = (if P d then g d else [])"
    using assms[of _ d] by (auto simp: filter_empty_conv filter_id_conv)
  with Cons show ?case by simp
qed

lemma latest_joined_own_devices:
  "latest_joined (own_devices c st)
     = filter (\<lambda>r. dev_company_id (fst (snd r)) = c) (latest_joined st)"
proof -
  define g :: "device_latest \<Rightarrow> device \<Rightarrow> (device_latest \<times> device \<times> device_type) list"
    where "g = (\<lambda>dl d. if dl_device_id dl = dev_id d
      then concat (map (\<lambda>dt. if dev_device_type_id d = dt_id dt then [(dl, d, dt)] else [])
                       (device_types st))
      else [])"
  have inner: "concat (map (g dl) (filter (\<lambda>d. dev_company_id d = c) (devices st)))
      = filter (\<lambda>r. dev_company_id (fst (snd r)) = c) (concat (map (g dl) (devices st)))" for dl
    by (rule concat_map_filter_source) (auto simp: g_def split: if_splits)
  have "latest_joined (own_devices c st)
      = concat (map (\<lambda>dl. concat (map (g dl) (filter (\<lambda>d. dev_company_id d = c) (devices st))))
                    (device_latests st))"
    by (simp add: latest_joined_def own_devices_def g_def cong: if_cong)
  also have "\<dots> = concat (map (\<lambda>dl. filter (\<lambda>r. dev_company_id (fst (snd r)) = c)
                                         (concat (map (g dl) (devices st))))
                         (device_latests st))"
    by (simp only: inner)
  also have "\<dots> = filter (\<lambda>r. dev_company_id (fst (snd r)) = c)
                     (concat (map (\<lambda>dl. concat (map (g dl) (devices st))) (device_latests st)))"
    by (simp add: filter_concat comp_def)
  also have "concat (map (\<lambda>dl. concat (map (g dl) (devices st))) (device_latests st))
      = latest_joined st"
    by (simp add: latest_joined_def g_def)
  finally show ?thesis .
qed

lemma latest_rows_own_devices:
  "latest_rows (own_devices c st) c dtype = latest_rows st c dtype"
proof -
  have "filter (latest_where c dtype) (filter (\<lambda>r. dev_company_id (fst (snd r)) = c) (latest_joined st))
      = filter (latest_where c dtype) (latest_joined st)"
    by (auto simp: latest_where_def intro: filter_cong)
  then show ?thesis
    by (simp add: latest_rows_def latest_joined_own_devices del: filter_filter)
qed

lemma widget_latest_own_devices:
  "widget_latest pf (own_devices (user_company_id rq) st) rq = widget_latest pf st rq"
proof -
  have "\<And>cfg s. latest_series pf (own_devices (user_company_id rq) st) rq cfg s
          = latest_series pf st rq cfg s"
    by (simp add: latest_series_def latest_rows_own_devices)
  then show ?thesis
    by (simp add: widget_latest_def widget_lookup_own_devices
             cong: list.case_cong option.case_cong)
qed

lemma latest_rows_set:
  "set (latest_rows st c dtype) \<subseteq> {r \<in> set (latest_joined st). latest_where c dtype r}"
  by (auto simp: latest_rows_def)

lemma series_where_None: "series_where p None t = in_scope p"
  by (auto simp: fun_eq_iff series_where_def in_scope_def in_window_def)

lemma series_where_Some:
  "series_where p (Some w) t = (\<lambda>r. in_scope p r \<and> t - w \<le> dd_created_at (fst r))"
  by (auto simp: fun_eq_iff series_where_def in_scope_def in_window_def)

lemma fetch_series_no_window:
  assumes "timeFilter (timeRange_of rq) = None"
  shows "fetch_series st (rq\<lparr>now := t'\<rparr>) cfg s = fetch_series st rq cfg s"
proof -
  have "timeRange_of (rq\<lparr>now := t'\<rparr>) = timeRange_of rq"
    by (simp add: timeRange_of_def)
  moreover have "params_of (rq\<lparr>now := t'\<rparr>) cfg s = params_of rq cfg s"
    by (simp add: params_of_def limit_param_def)
  moreover have "series_rows st q None t' n = series_rows st q None (now rq) n" for q n
    by (simp add: series_rows_def series_where_None)
  ultimately show ?thesis
    using assms by (simp add: fetch_series_def seriesQuery_def cong: sum.case_cong)
qed

lemma series_loop_all_ok:
  assumes "\<And>s. s \<in> set ss \<Longrightarrow> \<exists>r. fetch_series st rq cfg s = Inr r"
  shows "\<exists>seriesData qs'. series_loop st rq cfg ss acc qs = (Inr seriesData, qs')"
  using assms
proof (induction ss arbitrary: acc qs)
  case Nil
  then show ?case by simp
next
  case (Cons s ss)
  from Cons.prems[of s] obtain r where r: "fetch_series st rq cfg s = Inr r"
    by auto
  from Cons.IH[of "obj_set (displayName s) r acc"] Cons.prems r show ?case
    by (simp add: Let_def)
qed

lemma fetch_series_limit_0:
  assumes "limit_param rq = Some 0"
  shows "fetch_series st rq cfg s
           = Inr \<lparr>sr_data = [], sr_unit = or_empty (unit s), sr_propertyName = propertyName s\<rparr>"
  using assms
  by (simp add: fetch_series_def seriesQuery_def params_of_def store_limit_def series_rows_def)

lemma fetch_series_bad_limit:
  assumes "store_limit (limit_param rq) = Inl e"
  shows "fetch_series st rq cfg s = Inl e"
  using assms by (simp add: fetch_series_def seriesQuery_def params_of_def)

lemma widget_data_ignores_scope:
  "widget_data st (rq\<lparr>q_hierarchyId := h, q_deviceId := d\<rparr>) = widget_data st rq"
  by (rule widget_data_cong)
     (simp_all add: fetch_series_def params_of_def limit_param_def timeRange_of_def)

section \<open>Lemmas on the normalizer\<close>

lemma last_value_snoc:
  "last_value (ps @ [p]) t = (if cp_timestamp p = t then Some (cp_value p) else last_value ps t)"
  by (induction ps) (auto split: option.splits)

lemma last_value_None_iff: "last_value ps t = None \<longleftrightarrow> t \<notin> cp_timestamp ` set ps"
  by (induction ps) (auto split: option.splits)

lemma keys_add_point:
  "map fst (add_point name pt dm)
     = (if cp_timestamp pt \<in> fst ` set dm then map fst dm else map fst dm @ [cp_timestamp pt])"
  by (simp add: add_point_def Let_def keys_obj_set)

lemma map_of_add_point:
  "map_of (add_point name pt dm)
     = (map_of dm)(cp_timestamp pt \<mapsto>
          obj_set name (cp_value pt)
            (case map_of dm (cp_timestamp pt) of None \<Rightarrow> [(''timestamp'', of_int (cp_timestamp pt))]
             | Some r \<Rightarrow> r))"
  by (simp add: add_point_def Let_def map_of_obj_set obj_get_def)

lemma row_spec_fresh:
  assumes "t \<notin> set (all_times es)"
  shows "row_spec es t = [''timestamp'' \<mapsto> of_int t]"
proof
  fix k
  show "row_spec es t k = [''timestamp'' \<mapsto> of_int t] k"
  proof (cases "map_of es k")
    case None
    then show ?thesis by (simp add: row_spec_def)
  next
    case (Some sd)
    then have "(k, sd) \<in> set es" by (rule map_of_SomeD)
    then have "cp_timestamp ` set (points_of sd) \<subseteq> set (all_times es)"
      by (force simp: all_times_def)
    with assms have "last_value (points_of sd) t = None"
      by (auto simp: last_value_None_iff)
    with Some show ?thesis by (simp add: row_spec_def)
  qed
qed

lemma partial_ok_add_point:
  assumes "partial_ok dm es name seen" and "name \<noteq> ''timestamp''"
  shows "partial_ok (add_point name pt dm) es name (seen @ [pt])"
proof -
  let ?t = "cp_timestamp pt"
  let ?dm = "add_point name pt dm"
  from assms(1) have d: "distinct (map fst dm)"
    and k: "fst ` set dm = set (all_times es) \<union> cp_timestamp ` set seen"
    and r: "\<And>t row. (t, row) \<in> set dm \<Longrightarrow> map_of row = (row_spec es t)(name := last_value seen t)"
    by (auto simp: partial_ok_def list_all_iff)
  have d': "distinct (map fst ?dm)"
    using d by (auto simp: keys_add_point)
  have k': "fst ` set ?dm = set (all_times es) \<union> cp_timestamp ` set (seen @ [pt])"
  proof -
    have "fst ` set ?dm = set (map fst ?dm)" by simp
    also have "\<dots> = insert ?t (fst ` set dm)"
      by (auto simp: keys_add_point)
    finally show ?thesis using k by auto
  qed
  have r': "map_of row = (row_spec es t)(name := last_value (seen @ [pt]) t)"
    if "(t, row) \<in> set ?dm" for t row
  proof -
    from that d' have m: "map_of ?dm t = Some row" by simp
    show ?thesis
    proof (cases "t = ?t")
      case False
      with m have "map_of dm t = Some row" by (simp add: map_of_add_point)
      then have "(t, row) \<in> set dm" by (rule map_of_SomeD)
      from r[OF this] False show ?thesis by (simp add: last_value_snoc)
    next
      case True
      show ?thesis
      proof (cases "map_of dm ?t")
        case None
        then have "?t \<notin> fst ` set dm" by (simp add: map_of_eq_None_iff)
        with k have fresh: "?t \<notin> set (all_times es)" by auto
        from m True None have "row = obj_set name (cp_value pt) [(''timestamp'', of_int ?t)]"
          by (simp add: map_of_add_point)
        then have "map_of row = [''timestamp'' \<mapsto> of_int ?t](name \<mapsto> cp_value pt)"
          by (simp only: map_of_obj_set) simp
        with row_spec_fresh[OF fresh] True show ?thesis
          by (simp add: last_value_snoc)
      next
        case (Some old)
        then have "(?t, old) \<in> set dm" by (rule map_of_SomeD)
        from r[OF this] have o: "map_of old = (row_spec es ?t)(name := last_value seen ?t)" .
        from m True Some have "row = obj_set name (cp_value pt) old"
          by (simp add: map_of_add_point)
        then have "map_of row = (map_of old)(name \<mapsto> cp_value pt)"
          by (simp only: map_of_obj_set)
        with o True show ?thesis
          by (simp add: last_value_snoc)
      qed
    qed
  qed
  from d' k' r' show ?thesis
    unfolding partial_ok_def list_all_iff by (auto simp del: set_append)
qed

lemma partial_ok_fold:
  assumes "partial_ok dm es name seen" and "name \<noteq> ''timestamp''"
  shows "partial_ok (fold (add_point name) pts dm) es name (seen @ pts)"
  using assms(1)
proof (induction pts arbitrary: dm seen)
  case Nil
  then show ?case by simp
next
  case (Cons pt pts)
  from partial_ok_add_point[OF Cons.prems assms(2), of pt]
  have "partial_ok (add_point name pt dm) es name (seen @ [pt])" .
  from Cons.IH[OF this] show ?case by simp
qed

lemma table_ok_step:
  assumes "table_ok dm es" and "fst e \<noteq> ''timestamp''" and "fst e \<notin> fst ` set es"
  shows "table_ok (dataMap_step e dm) (es @ [e])"
proof -
  obtain name sd where e: "e = (name, sd)" by (cases e)
  have none: "map_of es name = None"
    using assms(3) e by (simp add: map_of_eq_None_iff)
  have start: "partial_ok dm es name []"
  proof -
    have "(row_spec es t)(name := None) = row_spec es t" for t
      using none assms(2) e by (auto simp: row_spec_def fun_eq_iff)
    with assms(1) show ?thesis
      by (simp add: table_ok_def partial_ok_def)
  qed
  have step: "dataMap_step e dm = fold (add_point name) (points_of sd) dm"
    by (simp add: dataMap_step_def points_of_def e split: option.splits)
  have "name \<noteq> ''timestamp''"
    using assms(2) e by simp
  from partial_ok_fold[OF start this, of "points_of sd"]
  have fin: "partial_ok (dataMap_step e dm) es name (points_of sd)"
    unfolding step by simp
  have times: "set (all_times (es @ [e])) = set (all_times es) \<union> cp_timestamp ` set (points_of sd)"
    by (simp add: all_times_def e)
  have spec: "(row_spec es t)(name := last_value (points_of sd) t) = row_spec (es @ [e]) t" for t
    using none assms(2) e by (auto simp: row_spec_def fun_eq_iff map_add_def split: option.splits)
  from fin show ?thesis
    unfolding table_ok_def partial_ok_def times spec by simp
qed

lemma table_ok_fold:
  assumes "table_ok dm seen" and "distinct (map fst (seen @ es))"
    and "''timestamp'' \<notin> fst ` set es"
  shows "table_ok (fold dataMap_step es dm) (seen @ es)"
  using assms
proof (induction es arbitrary: dm seen)
  case Nil
  then show ?case by simp
next
  case (Cons e es)
  have "table_ok (dataMap_step e dm) (seen @ [e])"
    using Cons.prems by (intro table_ok_step) auto
  from Cons.IH[OF this] Cons.prems show ?case by simp
qed

lemma fold_add_series:
  "fold add_series es (dm, ks, us)
     = (fold dataMap_step es dm, ks @ map fst es,
        fold (\<lambda>e. obj_set (fst e) (or_empty (sd_unit (snd e)))) es us)"
  by (induction es arbitrary: dm ks us) (simp_all add: add_series_def dataMap_step_def)

lemma formatChartData_table:
  "cd_data (formatChartData es) = sort_key row_time (map snd (fold dataMap_step es []))"
  "cd_keys (formatChartData es) = map fst es"
  by (simp_all add: formatChartData_def fold_add_series)

lemma table_ok_formatChartData:
  assumes "distinct (map fst es)" and "''timestamp'' \<notin> fst ` set es"
  shows "table_ok (fold dataMap_step es []) es"
proof -
  have "table_ok [] []"
    by (simp add: table_ok_def all_times_def)
  from table_ok_fold[OF this, of es] assms show ?thesis by simp
qed

lemma table_row_time:
  assumes "table_ok dm es" and "(t, row) \<in> set dm"
  shows "row_time row = of_int t"
proof -
  from assms have "map_of row = row_spec es t"
    by (auto simp: table_ok_def list_all_iff)
  then show ?thesis
    by (simp add: row_time_def obj_get_def row_spec_def)
qed

section \<open>Claims\<close>

text \<open>
  C1. The route never reads \<open>hierarchyId\<close>. In the example store node 5 has the subtree
  \<open>{5, 6}\<close>, and the request with \<open>hierarchyId=5\<close> is answered with the sample of
  device 2, which sits under node 9, next to the sample of device 1.
\<close>

theorem hierarchy_filter_missing:
  "q_hierarchyId demo_request = Some ''5''
   \<and> resolveSubtree (hierarchies demo_store) 5 = [5, 6]
   \<and> fst (widget_data demo_store demo_request)
       = Status200 True [(''OFR'', ofr_result)] ofr_config None
   \<and> map (\<lambda>row. (dd_serial_number (fst row), dev_id (snd row), dev_hierarchy_id (snd row)))
        (series_rows demo_store (params_of demo_request ofr_config ofr_series)
           (timeFilter (timeRange_of demo_request)) (now demo_request) 200)
       = [(''DEV002'', 2, Some 9), (''DEV001'', 1, Some 6)]"
  by code_simp

text \<open>
  C2. Removing the devices of every other company from the store changes the answer of
  neither route, whatever \<open>hierarchyId\<close> and \<open>deviceId\<close> the request carries; and every
  row either query selects is joined to a device of the requesting company.
\<close>

theorem tenant_isolation:
  "widget_data (own_devices (user_company_id rq) st) rq = widget_data st rq
   \<and> widget_latest pf (own_devices (user_company_id rq) st) rq = widget_latest pf st rq
   \<and> (\<forall>row \<in> set (series_rows st (params_of rq cfg s) tf t n).
         dev_company_id (snd row) = user_company_id rq)
   \<and> (\<forall>row \<in> set (latest_rows st (user_company_id rq) dtype).
         dev_company_id (fst (snd row)) = user_company_id rq)"
proof -
  have a: "widget_data (own_devices (user_company_id rq) st) rq = widget_data st rq"
    by (rule widget_data_cong) (simp_all add: fetch_series_own_devices widget_lookup_own_devices)
  have b: "widget_latest pf (own_devices (user_company_id rq) st) rq = widget_latest pf st rq"
    by (rule widget_latest_own_devices)
  have c: "\<forall>row \<in> set (series_rows st (params_of rq cfg s) tf t n).
         dev_company_id (snd row) = user_company_id rq"
    using series_rows_set[of st "params_of rq cfg s" tf t n]
    by (auto simp: series_where_def params_of_def)
  have d: "\<forall>row \<in> set (latest_rows st (user_company_id rq) dtype).
         dev_company_id (fst (snd row)) = user_company_id rq"
    using latest_rows_set[of st "user_company_id rq" dtype]
    by (auto simp: latest_where_def)
  from a b c d show ?thesis by blast
qed

theorem tenant_isolation_witness:
  "user_company_id demo_request = 1
   \<and> map dev_company_id (devices demo_store) = [1, 1, 2, 1]
   \<and> widget_data (own_devices (user_company_id demo_request) demo_store) demo_request
       = widget_data demo_store demo_request
   \<and> widget_latest (\<lambda>s. None) (own_devices (user_company_id demo_request) demo_store) demo_request
       = widget_latest (\<lambda>s. None) demo_store demo_request
   \<and> length (series_rows demo_store (params_of demo_request ofr_config ofr_series)
               (Some 86400000) 100000000 200) = 2
   \<and> list_all (\<lambda>row. dev_company_id (snd row) = 1)
        (series_rows demo_store (params_of demo_request ofr_config ofr_series)
           (Some 86400000) 100000000 200)
   \<and> length (latest_rows demo_store (user_company_id demo_request) (Some 1)) = 1
   \<and> list_all (\<lambda>row. dev_company_id (fst (snd row)) = 1)
        (latest_rows demo_store (user_company_id demo_request) (Some 1))"
proof -
  have c: "user_company_id demo_request = 1"
    by (simp add: demo_request_def)
  have d: "map dev_company_id (devices demo_store) = [1, 1, 2, 1]"
    by (simp add: demo_store_def)
  have n: "length (series_rows demo_store (params_of demo_request ofr_config ofr_series)
               (Some 86400000) 100000000 200) = 2"
    by code_simp
  have m: "length (latest_rows demo_store (user_company_id demo_request) (Some 1)) = 1"
    by code_simp
  from tenant_isolation[of demo_request demo_store "\<lambda>s. None" ofr_config ofr_series
         "Some 86400000" 100000000 200 "Some 1"] c d n m
  show ?thesis
    by (simp add: list_all_iff)
qed

text \<open>
  C3. In a successful response, every entry of \<open>data\<close> belongs to a configured series of
  that name, and its points are, in order, the rows selected for that series: each row
  joins a sample to its device, the device has the widget's device type, the sample's
  payload contains the series' field key, and the sample lies in the trailing window when
  \<open>timeRange\<close> names one. The points ascend by timestamp, and there are at most as many
  as the limit, which is 200 when the request gives none.
\<close>

theorem series_fetch_filtered:
  assumes "fst (widget_data st rq) = Status200 ok seriesData cfg msg"
    and "(name, r) \<in> set seriesData"
  shows "\<exists>s ss rows n. seriesConfig cfg = Some ss \<and> s \<in> set ss \<and> displayName s = name
      \<and> limit_param rq = Some (int n)
      \<and> map p_timestamp (sr_data r) = map (\<lambda>row. dd_created_at (fst row)) rows
      \<and> map p_serialNumber (sr_data r) = map (\<lambda>row. dd_serial_number (fst row)) rows
      \<and> (\<forall>row \<in> set rows.
            fst row \<in> set (device_datas st) \<and> snd row \<in> set (devices st)
            \<and> dd_device_id (fst row) = dev_id (snd row)
            \<and> Some (dev_device_type_id (snd row)) = deviceTypeId cfg
            \<and> dd_data (fst row) (dataSourceProperty s) \<noteq> None
            \<and> (\<forall>w. timeFilter (timeRange_of rq) = Some w \<longrightarrow> now rq - w \<le> dd_created_at (fst row)))
      \<and> sorted (map p_timestamp (sr_data r))
      \<and> length (sr_data r) \<le> n
      \<and> (q_limit rq = None \<longrightarrow> n = 200)"
proof -
  from widget_data_200[OF assms(1)] assms(2)
  obtain ss rs where ss: "seriesConfig cfg = Some ss"
    and all: "list_all2 (\<lambda>s r. fetch_series st rq cfg s = Inr r) ss rs"
    and sd: "seriesData = fold loop_step (zip ss rs) []"
    by auto
  from assms(2) sd fold_loop_step_set[of "zip ss rs" "[]"]
  obtain e where e: "e \<in> set (zip ss rs)" "name = displayName (fst e)" "r = snd e"
    by auto
  define s where "s = fst e"
  have s: "s \<in> set ss" "displayName s = name"
    using e by (metis prod.collapse set_zip_leftD s_def, simp add: s_def)
  have "fetch_series st rq cfg s = Inr r"
    using all e by (auto simp: s_def list_all2_iff)
  from fetch_series_Inr[OF this] obtain n where n: "store_limit (limit_param rq) = Inr n"
    and l2: "list_all2 (\<lambda>pt row. p_timestamp pt = dd_created_at (fst row)
                            \<and> p_serialNumber pt = dd_serial_number (fst row))
          (sr_data r)
          (series_rows st (params_of rq cfg s) (timeFilter (timeRange_of rq)) (now rq) n)"
    by blast
  define rows where "rows = series_rows st (params_of rq cfg s) (timeFilter (timeRange_of rq)) (now rq) n"
  have len: "length (sr_data r) = length rows"
    using l2 unfolding rows_def by (rule list_all2_lengthD)
  have ts: "map p_timestamp (sr_data r) = map (\<lambda>row. dd_created_at (fst row)) rows"
    using l2 unfolding rows_def by (induction rule: list_all2_induct) auto
  have sn: "map p_serialNumber (sr_data r) = map (\<lambda>row. dd_serial_number (fst row)) rows"
    using l2 unfolding rows_def by (induction rule: list_all2_induct) auto
  have lim: "limit_param rq = Some (int n)"
    using n by (rule store_limit_Inr)
  have props: "\<forall>row \<in> set rows.
            fst row \<in> set (device_datas st) \<and> snd row \<in> set (devices st)
            \<and> dd_device_id (fst row) = dev_id (snd row)
            \<and> Some (dev_device_type_id (snd row)) = deviceTypeId cfg
            \<and> dd_data (fst row) (dataSourceProperty s) \<noteq> None
            \<and> (\<forall>w. timeFilter (timeRange_of rq) = Some w \<longrightarrow> now rq - w \<le> dd_created_at (fst row))"
  proof
    fix row assume "row \<in> set rows"
    with series_rows_set[of st "params_of rq cfg s" "timeFilter (timeRange_of rq)" "now rq" n]
    have j: "row \<in> set (joined st)"
      and w: "series_where (params_of rq cfg s) (timeFilter (timeRange_of rq)) (now rq) row"
      by (auto simp: rows_def)
    from j have "fst row \<in> set (device_datas st) \<and> snd row \<in> set (devices st)
            \<and> dd_device_id (fst row) = dev_id (snd row)"
      by (auto simp: joined_def split: if_splits)
    with w show "fst row \<in> set (device_datas st) \<and> snd row \<in> set (devices st)
            \<and> dd_device_id (fst row) = dev_id (snd row)
            \<and> Some (dev_device_type_id (snd row)) = deviceTypeId cfg
            \<and> dd_data (fst row) (dataSourceProperty s) \<noteq> None
            \<and> (\<forall>w. timeFilter (timeRange_of rq) = Some w \<longrightarrow> now rq - w \<le> dd_created_at (fst row))"
      by (auto simp: series_where_def params_of_def in_window_def)
  qed
  have srt: "sorted (map p_timestamp (sr_data r))"
    unfolding ts rows_def by (rule series_rows_sorted)
  have le: "length (sr_data r) \<le> n"
    unfolding len rows_def by (rule series_rows_length)
  have dflt: "q_limit rq = None \<longrightarrow> n = 200"
    using lim by (auto simp: limit_param_def)
  from ss s lim ts sn props srt le dflt show ?thesis
    by (intro exI[of _ s] exI[of _ ss] exI[of _ rows] exI[of _ n] conjI)
qed

theorem series_fetch_filtered_witness:
  "fst (widget_data demo_store demo_request) = Status200 True [(''OFR'', ofr_result)] ofr_config None
   \<and> (''OFR'', ofr_result) \<in> set [(''OFR'', ofr_result)]
   \<and> sorted (map p_timestamp (sr_data ofr_result))
   \<and> length (sr_data ofr_result) \<le> 200"
proof -
  have h1: "fst (widget_data demo_store demo_request) = Status200 True [(''OFR'', ofr_result)] ofr_config None"
    by code_simp
  have h2: "(''OFR'', ofr_result) \<in> set [(''OFR'', ofr_result)]"
    by simp
  have q: "q_limit demo_request = None"
    by (simp add: demo_request_def)
  from series_fetch_filtered[OF h1 h2] q h1 h2 show ?thesis
    by auto
qed

text \<open>
  C4, as stated, fails for a series named \<open>timestamp\<close>: its values overwrite the
  \<open>timestamp\<close> property of the rows, which is the sort key. With such a series holding
  9999 at time 1000 next to series A, the row of time 1000 comes out after the row of time
  2000, and no row carries the time 1000.
\<close>

theorem timestamp_series_counterexample:
  "formatChartData [series_clash, series_A 1000 2000]
     = \<lparr>cd_data = [ [(''timestamp'', 2000), (''A'', 2)], [(''timestamp'', 9999), (''A'', 1)]],
        cd_keys = [''timestamp'', ''A''],
        cd_units = [(''timestamp'', []), (''A'', ''l/min'')]\<rparr>
   \<and> set (all_times [series_clash, series_A 1000 2000]) = {1000, 2000}
   \<and> set (map row_time (cd_data (formatChartData [series_clash, series_A 1000 2000])))
       \<noteq> of_int ` set (all_times [series_clash, series_A 1000 2000])"
proof -
  have a: "formatChartData [series_clash, series_A 1000 2000]
     = \<lparr>cd_data = [ [(''timestamp'', 2000), (''A'', 2)], [(''timestamp'', 9999), (''A'', 1)]],
        cd_keys = [''timestamp'', ''A''],
        cd_units = [(''timestamp'', []), (''A'', ''l/min'')]\<rparr>"
    by code_simp
  have b: "set (all_times [series_clash, series_A 1000 2000]) = {1000, 2000}"
    by (auto simp: all_times_def series_clash_def series_A_def points_of_def)
  have c: "set (map row_time (cd_data (formatChartData [series_clash, series_A 1000 2000])))
       = {2000, 9999}"
    unfolding a by (auto simp: row_time_def obj_get_def)
  have "(9999 :: rat) \<notin> of_int ` {1000, 2000 :: int}"
    by simp
  with c b have "set (map row_time (cd_data (formatChartData [series_clash, series_A 1000 2000])))
       \<noteq> of_int ` set (all_times [series_clash, series_A 1000 2000])"
    by (metis insertI1 insert_commute)
  with a b show ?thesis by blast
qed

text \<open>
  C4, amended. For an input object none of whose series is named \<open>timestamp\<close> (its
  properties have distinct names, as those of any object): the rows ascend by time with
  one row for each distinct time among the points of all series; a row of time \<open>t\<close>
  holds \<open>t\<close> under \<open>timestamp\<close>, under the name of each series the value of that series'
  last point at \<open>t\<close>, nothing there when the series has no point at \<open>t\<close>, and nothing
  under any other key; the list of series names is that of the input in its order. For
  \<open>A = {(t1, 1), (t2, 2)}\<close> and \<open>B = {(t1, 9)}\<close> with \<open>t1 < t2\<close> the rows are
  \<open>{t1, A: 1, B: 9}\<close> and \<open>{t2, A: 2}\<close>, and the names are A, B.
\<close>

theorem formatChartData_rows:
  assumes "distinct (map fst seriesData)" and "''timestamp'' \<notin> fst ` set seriesData"
  shows "sorted (map row_time (cd_data (formatChartData seriesData)))
     \<and> distinct (map row_time (cd_data (formatChartData seriesData)))
     \<and> set (map row_time (cd_data (formatChartData seriesData))) = of_int ` set (all_times seriesData)
     \<and> (\<forall>row \<in> set (cd_data (formatChartData seriesData)). \<exists>t \<in> set (all_times seriesData).
           obj_get row ''timestamp'' = Some (of_int t)
           \<and> (\<forall>e \<in> set seriesData.
                 obj_get row (fst e) = last_value (points_of (snd e)) t
                 \<and> (t \<notin> cp_timestamp ` set (points_of (snd e)) \<longrightarrow> obj_get row (fst e) = None))
           \<and> (\<forall>k. k \<noteq> ''timestamp'' \<and> k \<notin> fst ` set seriesData \<longrightarrow> obj_get row k = None))
     \<and> cd_keys (formatChartData seriesData) = map fst seriesData
     \<and> (t1 < t2 \<longrightarrow>
          formatChartData [series_A t1 t2, series_B t1]
            = \<lparr>cd_data = [ [(''timestamp'', of_int t1), (''A'', 1), (''B'', 9)],
                          [(''timestamp'', of_int t2), (''A'', 2)]],
               cd_keys = [''A'', ''B''],
               cd_units = [(''A'', ''l/min''), (''B'', [])]\<rparr>)"
proof -
  define dm where "dm = fold dataMap_step seriesData []"
  define rows where "rows = cd_data (formatChartData seriesData)"
  have ok: "table_ok dm seriesData"
    unfolding dm_def using assms by (rule table_ok_formatChartData)
  have rows: "rows = sort_key row_time (map snd dm)"
    by (simp add: rows_def dm_def formatChartData_table)
  have d: "distinct (map fst dm)" and k: "fst ` set dm = set (all_times seriesData)"
    using ok by (simp_all add: table_ok_def)
  have rt: "map row_time (map snd dm) = map (\<lambda>e. of_int (fst e)) dm"
    using table_row_time[OF ok] by (auto simp: map_eq_conv)
  have dist0: "distinct (map row_time (map snd dm))"
  proof -
    have "distinct (map (\<lambda>e. of_int (fst e) :: rat) dm)"
      using d by (auto simp: distinct_map inj_on_def)
    then show ?thesis unfolding rt .
  qed
  have s1: "sorted (map row_time rows)"
    unfolding rows by (rule sorted_sort_key)
  have s2: "distinct (map row_time rows)"
    using dist0 unfolding rows by (simp add: distinct_map del: map_map)
  have s3: "set (map row_time rows) = of_int ` set (all_times seriesData)"
  proof -
    have "set (map row_time rows) = set (map row_time (map snd dm))"
      unfolding rows by (simp del: map_map)
    also have "\<dots> = set (map (\<lambda>e. of_int (fst e) :: rat) dm)"
      by (simp only: rt)
    also have "\<dots> = of_int ` fst ` set dm"
      by auto
    finally show ?thesis by (simp add: k)
  qed
  have s4: "\<forall>row \<in> set rows. \<exists>t \<in> set (all_times seriesData).
           obj_get row ''timestamp'' = Some (of_int t)
           \<and> (\<forall>e \<in> set seriesData.
                 obj_get row (fst e) = last_value (points_of (snd e)) t
                 \<and> (t \<notin> cp_timestamp ` set (points_of (snd e)) \<longrightarrow> obj_get row (fst e) = None))
           \<and> (\<forall>k. k \<noteq> ''timestamp'' \<and> k \<notin> fst ` set seriesData \<longrightarrow> obj_get row k = None)"
  proof
    fix row assume "row \<in> set rows"
    then obtain t where tr: "(t, row) \<in> set dm"
      unfolding rows by auto
    then have t: "t \<in> set (all_times seriesData)"
      using k by force
    from ok tr have m: "map_of row = row_spec seriesData t"
      by (auto simp: table_ok_def list_all_iff)
    have a: "obj_get row ''timestamp'' = Some (of_int t)"
      by (simp add: obj_get_def m row_spec_def)
    have b: "\<forall>e \<in> set seriesData.
                 obj_get row (fst e) = last_value (points_of (snd e)) t
                 \<and> (t \<notin> cp_timestamp ` set (points_of (snd e)) \<longrightarrow> obj_get row (fst e) = None)"
    proof
      fix e assume e: "e \<in> set seriesData"
      then have ne: "fst e \<noteq> ''timestamp''"
        using assms(2) by (metis imageI)
      from e assms(1) have "map_of seriesData (fst e) = Some (snd e)"
        by (metis map_of_is_SomeI prod.collapse)
      with ne have v: "obj_get row (fst e) = last_value (points_of (snd e)) t"
        by (simp add: obj_get_def m row_spec_def)
      then show "obj_get row (fst e) = last_value (points_of (snd e)) t
                 \<and> (t \<notin> cp_timestamp ` set (points_of (snd e)) \<longrightarrow> obj_get row (fst e) = None)"
        by (simp add: last_value_None_iff)
    qed
    have c: "\<forall>k. k \<noteq> ''timestamp'' \<and> k \<notin> fst ` set seriesData \<longrightarrow> obj_get row k = None"
      by (auto simp: obj_get_def m row_spec_def map_of_eq_None_iff[THEN iffD2])
    from t a b c show "\<exists>t \<in> set (all_times seriesData).
           obj_get row ''timestamp'' = Some (of_int t)
           \<and> (\<forall>e \<in> set seriesData.
                 obj_get row (fst e) = last_value (points_of (snd e)) t
                 \<and> (t \<notin> cp_timestamp ` set (points_of (snd e)) \<longrightarrow> obj_get row (fst e) = None))
           \<and> (\<forall>k. k \<noteq> ''timestamp'' \<and> k \<notin> fst ` set seriesData \<longrightarrow> obj_get row k = None)"
      by blast
  qed
  have s5: "cd_keys (formatChartData seriesData) = map fst seriesData"
    by (rule formatChartData_table)
  have s6: "t1 < t2 \<longrightarrow>
          formatChartData [series_A t1 t2, series_B t1]
            = \<lparr>cd_data = [ [(''timestamp'', of_int t1), (''A'', 1), (''B'', 9)],
                          [(''timestamp'', of_int t2), (''A'', 2)]],
               cd_keys = [''A'', ''B''],
               cd_units = [(''A'', ''l/min''), (''B'', [])]\<rparr>"
    by (simp add: formatChartData_def add_series_def series_A_def series_B_def add_point_def
          obj_get_def row_time_def or_empty_def Let_def)
  from s1 s2 s3 s4 s5 s6 show ?thesis
    unfolding rows_def by (intro conjI)
qed

theorem formatChartData_rows_witness:
  "distinct (map fst [series_A 1000 2000, series_B 1000])
   \<and> ''timestamp'' \<notin> fst ` set [series_A 1000 2000, series_B 1000]
   \<and> formatChartData [series_A 1000 2000, series_B 1000]
       = \<lparr>cd_data = [ [(''timestamp'', 1000), (''A'', 1), (''B'', 9)],
                     [(''timestamp'', 2000), (''A'', 2)]],
          cd_keys = [''A'', ''B''],
          cd_units = [(''A'', ''l/min''), (''B'', [])]\<rparr>"
proof -
  have h1: "distinct (map fst [series_A 1000 2000, series_B 1000])"
    by (simp add: series_A_def series_B_def)
  have h2: "''timestamp'' \<notin> fst ` set [series_A 1000 2000, series_B 1000]"
    by (simp add: series_A_def series_B_def)
  from formatChartData_rows[OF h1 h2, of 1000 2000] h1 h2 show ?thesis
    by simp
qed

text \<open>
  C5. \<open>timeRange\<close> is compared with \<open>1h\<close>, \<open>6h\<close>, \<open>24h\<close>, \<open>7d\<close> and \<open>30d\<close>, which give
  windows of that length in milliseconds; any other string gives no window. With a window
  \<open>w\<close> the query selects the first \<open>n\<close> rows by time among the rows in scope not older
  than \<open>w\<close>; with no window it selects the first \<open>n\<close> among all rows in scope, and the
  answer does not depend on the time of the request.
\<close>

theorem timeRange_window:
  "timeFilter ''1h'' = Some 3600000 \<and> timeFilter ''6h'' = Some 21600000
   \<and> timeFilter ''24h'' = Some 86400000 \<and> timeFilter ''7d'' = Some 604800000
   \<and> timeFilter ''30d'' = Some 2592000000
   \<and> (tr \<notin> {''1h'', ''6h'', ''24h'', ''7d'', ''30d''} \<longrightarrow> timeFilter tr = None)
   \<and> series_rows st p (Some w) t n
       = take n (sort_key (\<lambda>r. dd_created_at (fst r))
                   (filter (\<lambda>r. in_scope p r \<and> t - w \<le> dd_created_at (fst r)) (joined st)))
   \<and> series_rows st p None t n
       = take n (sort_key (\<lambda>r. dd_created_at (fst r)) (filter (in_scope p) (joined st)))
   \<and> (q_timeRange rq = Some tr \<and> tr \<notin> {''1h'', ''6h'', ''24h'', ''7d'', ''30d''}
        \<longrightarrow> widget_data st (rq\<lparr>now := t'\<rparr>) = widget_data st rq)"
proof -
  have five: "timeFilter ''1h'' = Some 3600000 \<and> timeFilter ''6h'' = Some 21600000
   \<and> timeFilter ''24h'' = Some 86400000 \<and> timeFilter ''7d'' = Some 604800000
   \<and> timeFilter ''30d'' = Some 2592000000"
    by (simp add: timeFilter_def ms_hour_def ms_day_def)
  have other: "tr \<notin> {''1h'', ''6h'', ''24h'', ''7d'', ''30d''} \<longrightarrow> timeFilter tr = None"
    by (simp add: timeFilter_def)
  have some: "series_rows st p (Some w) t n
       = take n (sort_key (\<lambda>r. dd_created_at (fst r))
                   (filter (\<lambda>r. in_scope p r \<and> t - w \<le> dd_created_at (fst r)) (joined st)))"
    by (simp add: series_rows_def series_where_Some)
  have none: "series_rows st p None t n
       = take n (sort_key (\<lambda>r. dd_created_at (fst r)) (filter (in_scope p) (joined st)))"
    by (simp add: series_rows_def series_where_None)
  have indep: "q_timeRange rq = Some tr \<and> tr \<notin> {''1h'', ''6h'', ''24h'', ''7d'', ''30d''}
        \<longrightarrow> widget_data st (rq\<lparr>now := t'\<rparr>) = widget_data st rq"
  proof
    assume a: "q_timeRange rq = Some tr \<and> tr \<notin> {''1h'', ''6h'', ''24h'', ''7d'', ''30d''}"
    then have n: "timeFilter (timeRange_of rq) = None"
      using other by (simp add: timeRange_of_def)
    show "widget_data st (rq\<lparr>now := t'\<rparr>) = widget_data st rq"
    proof (rule widget_data_cong)
      show "fetch_series st (rq\<lparr>now := t'\<rparr>) cfg s = fetch_series st rq cfg s" for cfg s
        using n by (rule fetch_series_no_window)
    qed (simp_all add: params_of_def limit_param_def timeRange_of_def)
  qed
  from five other some none indep show ?thesis by blast
qed

theorem timeRange_window_witness:
  "timeFilter ''all'' = None
   \<and> q_timeRange (demo_request\<lparr>q_timeRange := Some ''all''\<rparr>) = Some ''all''
   \<and> widget_data demo_store (demo_request\<lparr>q_timeRange := Some ''all'', now := 5\<rparr>)
       = widget_data demo_store (demo_request\<lparr>q_timeRange := Some ''all''\<rparr>)
   \<and> fst (widget_data demo_store (demo_request\<lparr>q_timeRange := Some ''all''\<rparr>))
       = Status200 True [(''OFR'', ofr_history)] ofr_config None
   \<and> fst (widget_data demo_store (demo_request\<lparr>q_timeRange := Some ''24h''\<rparr>))
       = Status200 True [(''OFR'', ofr_result)] ofr_config None"
proof -
  have a: "fst (widget_data demo_store (demo_request\<lparr>q_timeRange := Some ''all''\<rparr>))
       = Status200 True [(''OFR'', ofr_history)] ofr_config None"
    by code_simp
  have b: "fst (widget_data demo_store (demo_request\<lparr>q_timeRange := Some ''24h''\<rparr>))
       = Status200 True [(''OFR'', ofr_result)] ofr_config None"
    by code_simp
  from timeRange_window[of "''all''" demo_store _ _ _ _ "demo_request\<lparr>q_timeRange := Some ''all''\<rparr>" 5] a b
  show ?thesis
    by simp
qed

text \<open>
  C6, as stated, fails: a negative limit and a limit that is no number are bound to
  \<open>LIMIT\<close> as \<open>parseInt\<close> returns them, the store refuses them, and the answer is the 500
  response, not the answer for the default 200.
\<close>

theorem limit_fallback_counterexample:
  "js_parseInt ''-5'' = Some (- 5)
   \<and> fst (widget_data demo_store (demo_request\<lparr>q_limit := Some ''-5''\<rparr>))
       = Status500 False ''Failed to fetch widget data'' (NegativeLimit (- 5))
   \<and> js_parseInt ''abc'' = None
   \<and> fst (widget_data demo_store (demo_request\<lparr>q_limit := Some ''abc''\<rparr>))
       = Status500 False ''Failed to fetch widget data'' InvalidLimit
   \<and> fst (widget_data demo_store (demo_request\<lparr>q_limit := Some ''200''\<rparr>))
       = Status200 True [(''OFR'', ofr_result)] ofr_config None"
  by code_simp

text \<open>
  C6, amended. For a widget with at least one series: a limit that parses to 0 gives the
  200 response with no point in any series; an absent limit is 200; a limit for which
  \<open>parseInt\<close> gives \<open>NaN\<close>, or a negative number, gives the 500 response.
\<close>

theorem limit_handling:
  assumes "widget_lookup st (widgetId rq) = w # ws"
    and "wd_data_source_config (fst w) = Some cfg"
    and "seriesConfig cfg = Some (s # ss)"
  shows "(limit_param rq = Some 0 \<longrightarrow>
            (\<exists>seriesData. fst (widget_data st rq) = Status200 True seriesData cfg None
               \<and> (\<forall>e \<in> set seriesData. sr_data (snd e) = [])))
     \<and> (q_limit rq = None \<longrightarrow> limit_param rq = Some 200)
     \<and> (limit_param rq = None \<longrightarrow>
            fst (widget_data st rq) = Status500 False ''Failed to fetch widget data'' InvalidLimit)
     \<and> (\<forall>n. limit_param rq = Some n \<and> n < 0 \<longrightarrow>
            fst (widget_data st rq)
              = Status500 False ''Failed to fetch widget data'' (NegativeLimit n))"
proof -
  have zero: "limit_param rq = Some 0 \<longrightarrow>
            (\<exists>seriesData. fst (widget_data st rq) = Status200 True seriesData cfg None
               \<and> (\<forall>e \<in> set seriesData. sr_data (snd e) = []))"
  proof
    assume z: "limit_param rq = Some 0"
    have "\<exists>r. fetch_series st rq cfg x = Inr r" for x
      using fetch_series_limit_0[OF z] by blast
    from series_loop_all_ok[of "s # ss" st rq cfg "[]" "[WidgetQuery (widgetId rq)]", OF this]
    obtain seriesData qs' where
      l: "series_loop st rq cfg (s # ss) [] [WidgetQuery (widgetId rq)] = (Inr seriesData, qs')"
      by blast
    then have resp: "fst (widget_data st rq) = Status200 True seriesData cfg None"
      using assms by (simp add: widget_data_def del: series_loop.simps)
    from series_loop_Inr[OF l] obtain rs where
      rs: "list_all2 (\<lambda>s r. fetch_series st rq cfg s = Inr r) (s # ss) rs"
        "seriesData = fold loop_step (zip (s # ss) rs) []"
      by blast
    have "\<forall>e \<in> set seriesData. sr_data (snd e) = []"
    proof
      fix e assume "e \<in> set seriesData"
      with rs(2) fold_loop_step_set[of "zip (s # ss) rs" "[]"]
      obtain x where x: "x \<in> set (zip (s # ss) rs)" "snd e = snd x"
        by auto
      with rs(1) have "fetch_series st rq cfg (fst x) = Inr (snd x)"
        by (auto simp: list_all2_iff)
      with fetch_series_limit_0[OF z, of st cfg "fst x"] x(2) show "sr_data (snd e) = []"
        by auto
    qed
    with resp show "\<exists>seriesData. fst (widget_data st rq) = Status200 True seriesData cfg None
               \<and> (\<forall>e \<in> set seriesData. sr_data (snd e) = [])"
      by blast
  qed
  have dflt: "q_limit rq = None \<longrightarrow> limit_param rq = Some 200"
    by (simp add: limit_param_def)
  have bad: "fst (widget_data st rq) = Status500 False ''Failed to fetch widget data'' e"
    if "store_limit (limit_param rq) = Inl e" for e
    using assms fetch_series_bad_limit[OF that, of st cfg s]
    by (simp add: widget_data_def server_error_def Let_def)
  have nan: "limit_param rq = None \<longrightarrow>
            fst (widget_data st rq) = Status500 False ''Failed to fetch widget data'' InvalidLimit"
    using bad[of InvalidLimit] by (simp add: store_limit_def)
  have neg: "\<forall>n. limit_param rq = Some n \<and> n < 0 \<longrightarrow>
            fst (widget_data st rq)
              = Status500 False ''Failed to fetch widget data'' (NegativeLimit n)"
    using bad by (simp add: store_limit_def)
  from zero dflt nan neg show ?thesis by blast
qed

theorem limit_handling_witness:
  "limit_param (demo_request\<lparr>q_limit := Some ''0''\<rparr>) = Some 0
   \<and> fst (widget_data demo_store (demo_request\<lparr>q_limit := Some ''0''\<rparr>))
       = Status200 True [(''OFR'', ofr_nothing)] ofr_config None
   \<and> limit_param (demo_request\<lparr>q_limit := Some ''-5''\<rparr>) = Some (- 5)
   \<and> fst (widget_data demo_store (demo_request\<lparr>q_limit := Some ''-5''\<rparr>))
       = Status500 False ''Failed to fetch widget data'' (NegativeLimit (- 5))"
proof -
  have l: "widget_lookup demo_store ''w1''
     = [(\<lparr>wd_id = ''w1'', wd_widget_type_id = ''line'', wd_data_source_config = Some ofr_config\<rparr>,
         \<lparr>wt_id = ''line'', wt_component_name = ''CustomLineChart'', wt_name = ''line_chart''\<rparr>)]"
    by (simp add: widget_lookup_def demo_store_def)
  have c: "seriesConfig ofr_config = Some [ofr_series]"
    by (simp add: ofr_config_def)
  have z: "limit_param (demo_request\<lparr>q_limit := Some ''0''\<rparr>) = Some 0"
    by code_simp
  have m: "limit_param (demo_request\<lparr>q_limit := Some ''-5''\<rparr>) = Some (- 5)"
    by code_simp
  have e: "fst (widget_data demo_store (demo_request\<lparr>q_limit := Some ''0''\<rparr>))
       = Status200 True [(''OFR'', ofr_nothing)] ofr_config None"
    by code_simp
  from limit_handling[of demo_store "demo_request\<lparr>q_limit := Some ''-5''\<rparr>" _ "[]" ofr_config ofr_series "[]"]
    l c m
  have "fst (widget_data demo_store (demo_request\<lparr>q_limit := Some ''-5''\<rparr>))
       = Status500 False ''Failed to fetch widget data'' (NegativeLimit (- 5))"
    by (simp add: demo_request_def)
  with z m e show ?thesis by simp
qed

text \<open>
  C7. A sample in scope whose field holds text that is no numeric literal makes the cast
  of the query raise: the answer is the 500 response, not a point of value 0. In the
  example store the only sample with \<open>gvf\<close> holds the text \<open>abc\<close>.
\<close>

theorem unparseable_value_fails:
  "numeric_in demo_store ''abc'' = None
   \<and> map (\<lambda>row. (dd_serial_number (fst row), dd_data (fst row) ''gvf''))
        (series_rows demo_store (params_of (demo_request\<lparr>widgetId := ''w4''\<rparr>) gvf_config gvf_series)
           (timeFilter (timeRange_of demo_request)) (now demo_request) 200)
       = [(''DEV001'', Some (JText ''abc''))]
   \<and> fst (widget_data demo_store (demo_request\<lparr>widgetId := ''w4''\<rparr>))
       = Status500 False ''Failed to fetch widget data'' (InvalidNumeric ''abc'')"
  by code_simp

text \<open>
  C8. A widget whose configuration has an empty (or no) series list gets the successful
  response with the empty \<open>data\<close> object, and the only query sent to the store is the
  lookup of the widget: no telemetry query is issued.
\<close>

theorem empty_series_no_query:
  assumes "widget_lookup st (widgetId rq) = w # ws"
    and "wd_data_source_config (fst w) = Some cfg"
    and "seriesConfig cfg = Some [] \<or> seriesConfig cfg = None"
  shows "widget_data st rq =
           (Status200 True [] cfg (Some ''No series configured''), [WidgetQuery (widgetId rq)])"
  using assms by (auto simp: widget_data_def no_series_def)

theorem empty_series_no_query_witness:
  "widget_lookup demo_store (widgetId (demo_request\<lparr>widgetId := ''w2''\<rparr>))
     = [(\<lparr>wd_id = ''w2'', wd_widget_type_id = ''line'', wd_data_source_config = Some bare_config\<rparr>,
         \<lparr>wt_id = ''line'', wt_component_name = ''CustomLineChart'', wt_name = ''line_chart''\<rparr>)]
   \<and> seriesConfig bare_config = Some []
   \<and> widget_data demo_store (demo_request\<lparr>widgetId := ''w2''\<rparr>)
       = (Status200 True [] bare_config (Some ''No series configured''), [WidgetQuery ''w2''])"
proof -
  have h1: "widget_lookup demo_store (widgetId (demo_request\<lparr>widgetId := ''w2''\<rparr>))
     = [(\<lparr>wd_id = ''w2'', wd_widget_type_id = ''line'', wd_data_source_config = Some bare_config\<rparr>,
         \<lparr>wt_id = ''line'', wt_component_name = ''CustomLineChart'', wt_name = ''line_chart''\<rparr>)]"
    by (simp add: widget_lookup_def demo_store_def)
  have h2: "seriesConfig bare_config = Some []"
    by (simp add: bare_config_def)
  from empty_series_no_query[OF h1 _ disjI1[OF h2]] h1 h2 show ?thesis
    by simp
qed





end
